theory Spec2Isabelle
  imports Main "HOL-Library.Word"
begin

section \<open>Machine values\<close>

text \<open>
  The header works on \<open>char\<close> buffers and on the unsigned 64-bit counts \<open>uint64_t\<close>,
  \<open>std::size_t\<close> and \<open>pdal::PointId\<close>. A byte is an 8-bit word. A count is a natural
  number; where the source computes with counts (\<open>np * m_pointSize\<close>, \<open>++m_index\<close>) the
  reduction modulo \<open>2 ^ 64\<close> of unsigned arithmetic is written out with \<open>u64\<close>.
\<close>

type_synonym byte = "8 word"

definition u64 :: "nat \<Rightarrow> nat" where
  "u64 n = n mod 2 ^ 64"

text \<open>
  The exceptions the header throws, and the undefined behaviour it can run into
  (integer division by zero, unchecked \<open>operator[]\<close> out of range).
\<close>

datatype error = runtime_error | out_of_range | undefined_behaviour

text \<open>
  A \<open>char*\<close> is either null or points into one heap allocation: \<open>Ptr b off\<close> is the
  address \<open>off\<close> bytes after the start of the allocation number \<open>b\<close>. Two such pointers
  are equal exactly when they name the same allocation and the same offset. The
  allocations of a \<open>MemBlock\<close> are its blocks, numbered in the order of allocation.
\<close>

datatype ptr = nullptr | Ptr nat nat

fun ptr_add :: "ptr \<Rightarrow> nat \<Rightarrow> ptr" where
  "ptr_add nullptr n = nullptr"
| "ptr_add (Ptr b off) n = Ptr b (off + n)"

text \<open>\<open>std::vector::resize(n, v)\<close>: keep the first \<open>n\<close> elements, pad with \<open>v\<close>.\<close>

definition vector_resize :: "'a list \<Rightarrow> nat \<Rightarrow> 'a \<Rightarrow> 'a list" where
  "vector_resize xs n v = take n xs @ replicate (n - length xs) v"

section \<open>MemBlock: the block arena\<close>

record MemBlock =
  m_pointSize :: nat
  m_pointsPerBlock :: nat
  m_bytesPerBlock :: nat
  m_blocks :: "byte list list"
  m_pos :: ptr
  m_end :: ptr
  m_refs :: "ptr list"

text \<open>
  The constructor. \<open>m_bytesPerBlock\<close> is a \<open>uint64_t\<close> product. The two \<open>reserve\<close>
  calls change capacities only.
\<close>

definition MemBlock_new :: "nat \<Rightarrow> nat \<Rightarrow> MemBlock" where
  "MemBlock_new pointSize pointsPerBlock =
     \<lparr> MemBlock.m_pointSize = pointSize,
       m_pointsPerBlock = pointsPerBlock,
       m_bytesPerBlock = u64 (pointsPerBlock * pointSize),
       m_blocks = [],
       m_pos = nullptr,
       m_end = nullptr,
       MemBlock.m_refs = [] \<rparr>"

text \<open>
  \<open>next()\<close>: when the cursor has reached the end of the current block (or no block
  exists yet, both pointers null), a zero-filled block of \<open>m_bytesPerBlock\<close> bytes is
  appended and the cursor moves to its start. The slot at the cursor is recorded in
  \<open>m_refs\<close> and returned, and the cursor advances by \<open>m_pointSize\<close>.
\<close>

definition MemBlock_grow :: "MemBlock \<Rightarrow> MemBlock" where
  "MemBlock_grow a =
     (if m_pos a = m_end a
      then a\<lparr> m_blocks := m_blocks a @ [replicate (m_bytesPerBlock a) 0],
              m_pos := Ptr (length (m_blocks a)) 0,
              m_end := Ptr (length (m_blocks a)) (m_bytesPerBlock a) \<rparr>
      else a)"

definition MemBlock_next :: "MemBlock \<Rightarrow> ptr \<times> MemBlock" where
  "MemBlock_next a =
     (let a1 = MemBlock_grow a;
          result = m_pos a1
      in (result,
          a1\<lparr> MemBlock.m_refs := MemBlock.m_refs a1 @ [result],
               m_pos := ptr_add (m_pos a1) (MemBlock.m_pointSize a1) \<rparr>))"

definition MemBlock_size :: "MemBlock \<Rightarrow> nat" where
  "MemBlock_size a = length (MemBlock.m_refs a)"

definition MemBlock_refs :: "MemBlock \<Rightarrow> ptr list" where
  "MemBlock_refs a = MemBlock.m_refs a"

definition MemBlock_clear :: "MemBlock \<Rightarrow> MemBlock" where
  "MemBlock_clear a =
     a\<lparr> m_blocks := [], m_pos := nullptr, m_end := nullptr, MemBlock.m_refs := [] \<rparr>"

text \<open>
  A sequence of \<open>n\<close> calls of \<open>next()\<close> on an arena: the arena after the calls, and
  the address each call returned, in call order.
\<close>

fun MemBlock_calls :: "nat \<Rightarrow> MemBlock \<Rightarrow> MemBlock" where
  "MemBlock_calls 0 a = a"
| "MemBlock_calls (Suc n) a = snd (MemBlock_next (MemBlock_calls n a))"

definition MemBlock_returned :: "nat \<Rightarrow> MemBlock \<Rightarrow> ptr list" where
  "MemBlock_returned n a = map (\<lambda>j. fst (MemBlock_next (MemBlock_calls j a))) [0..<n]"

text \<open>
  Call number \<open>j\<close> (counted from 1) allocates a block when the arena owns one more
  block after the call than before it.
\<close>

definition MemBlock_allocates :: "MemBlock \<Rightarrow> nat \<Rightarrow> bool" where
  "MemBlock_allocates a j =
     (length (m_blocks (MemBlock_calls j a)) = Suc (length (m_blocks (MemBlock_calls (j - 1) a))))"

section \<open>BlockPointTable: the write adapter over two arenas\<close>

record BlockPointTable =
  m_refs :: "ptr list"
  m_index :: nat

text \<open>
  The constructor appends the addresses of \<open>a\<close>, then those of \<open>b\<close>, to the empty
  \<open>m_refs\<close>.
\<close>

definition BlockPointTable_new :: "MemBlock \<Rightarrow> MemBlock \<Rightarrow> BlockPointTable" where
  "BlockPointTable_new a b =
     \<lparr> BlockPointTable.m_refs = ([] @ MemBlock_refs a) @ MemBlock_refs b,
       BlockPointTable.m_index = 0 \<rparr>"

text \<open>
  \<open>getPoint\<close> is \<open>m_refs[index]\<close>, with no bounds check: out of range the behaviour
  is undefined.
\<close>

definition BlockPointTable_getPoint :: "BlockPointTable \<Rightarrow> nat \<Rightarrow> error + ptr" where
  "BlockPointTable_getPoint bt index =
     (if index < length (BlockPointTable.m_refs bt)
      then Inr (BlockPointTable.m_refs bt ! index)
      else Inl undefined_behaviour)"

definition BlockPointTable_addPoint :: "BlockPointTable \<Rightarrow> nat \<times> BlockPointTable" where
  "BlockPointTable_addPoint bt =
     (BlockPointTable.m_index bt,
      bt\<lparr> BlockPointTable.m_index := u64 (BlockPointTable.m_index bt + 1) \<rparr>)"

definition BlockPointTable_size :: "BlockPointTable \<Rightarrow> nat" where
  "BlockPointTable_size bt = length (BlockPointTable.m_refs bt)"

section \<open>VectorPointTable: the streaming table\<close>

text \<open>
  \<open>pdal::PointRef(table, id)\<close> is a handle bound to the point number \<open>id\<close> of the
  table it was made from.
\<close>

datatype PointRef = PointRef nat

text \<open>
  The members of the table. The callback \<open>m_f\<close> and the state of the base class
  \<open>pdal::StreamPointTable\<close> play no part in the operations below.
\<close>

record VectorPointTable =
  m_pointSize :: nat
  m_data :: "byte list"
  m_size :: nat
  m_skips :: "bool list"

text \<open>
  The sizing constructor: a zero-filled buffer of \<open>np * m_pointSize\<close> bytes (a
  \<open>std::size_t\<close> product), \<open>np\<close> points, no point skipped.
\<close>

definition VectorPointTable_sized :: "nat \<Rightarrow> nat \<Rightarrow> VectorPointTable" where
  "VectorPointTable_sized pointSize np =
     \<lparr> VectorPointTable.m_pointSize = pointSize,
       m_data = replicate (u64 (np * pointSize)) 0,
       m_size = np,
       m_skips = replicate np False \<rparr>"

text \<open>
  The adopting constructor. The member initialisers divide by \<open>m_pointSize\<close> before the
  body runs its check; the body throws \<open>std::runtime_error\<close> when the length of the
  buffer is not a multiple of \<open>m_pointSize\<close>, and then no table exists.
\<close>

definition VectorPointTable_adopt :: "nat \<Rightarrow> byte list \<Rightarrow> error + VectorPointTable" where
  "VectorPointTable_adopt pointSize data =
     (if pointSize = 0 then Inl undefined_behaviour
      else if length data mod pointSize \<noteq> 0 then Inl runtime_error
      else Inr \<lparr> VectorPointTable.m_pointSize = pointSize,
                 m_data = data,
                 m_size = length data div pointSize,
                 m_skips = replicate (length data div pointSize) False \<rparr>)"

definition VectorPointTable_size :: "VectorPointTable \<Rightarrow> nat" where
  "VectorPointTable_size t = m_size t"

definition VectorPointTable_resize :: "VectorPointTable \<Rightarrow> nat \<Rightarrow> VectorPointTable" where
  "VectorPointTable_resize t np =
     t\<lparr> m_data := vector_resize (m_data t) (u64 (np * VectorPointTable.m_pointSize t)) 0,
        m_size := np,
        m_skips := vector_resize (m_skips t) np False \<rparr>"

text \<open>
  \<open>assign\<close> takes the buffer, divides its length by \<open>m_pointSize\<close> and resizes the
  skip mask. It has no \<open>throw\<close>.
\<close>

definition VectorPointTable_assign ::
  "VectorPointTable \<Rightarrow> byte list \<Rightarrow> error + VectorPointTable" where
  "VectorPointTable_assign t data =
     (if VectorPointTable.m_pointSize t = 0 then Inl undefined_behaviour
      else Inr (t\<lparr> m_data := data,
                   m_size := length data div VectorPointTable.m_pointSize t,
                   m_skips := vector_resize (m_skips t)
                                (length data div VectorPointTable.m_pointSize t) False \<rparr>))"

definition VectorPointTable_capacity :: "VectorPointTable \<Rightarrow> error + nat" where
  "VectorPointTable_capacity t =
     (if VectorPointTable.m_pointSize t = 0 then Inl undefined_behaviour
      else Inr (length (m_data t) div VectorPointTable.m_pointSize t))"

text \<open>
  \<open>at\<close> is a non-const member: it returns its result together with the table as
  the call leaves it.
\<close>

definition VectorPointTable_at ::
  "VectorPointTable \<Rightarrow> nat \<Rightarrow> (error + PointRef) \<times> VectorPointTable" where
  "VectorPointTable_at t index =
     (if index \<ge> VectorPointTable_size t then (Inl out_of_range, t)
      else (Inr (PointRef index), t))"

text \<open>
  \<open>getPoint\<close> returns \<open>m_data.data() + index * m_pointSize\<close>: the result here is the
  byte offset from \<open>m_data.data()\<close>. The bytes of a point are the \<open>m_pointSize\<close> bytes
  of the buffer from that offset on; this is what a handle bound to the point reads.
\<close>

definition VectorPointTable_getPoint :: "VectorPointTable \<Rightarrow> nat \<Rightarrow> nat" where
  "VectorPointTable_getPoint t index = u64 (index * VectorPointTable.m_pointSize t)"

definition VectorPointTable_point_bytes :: "VectorPointTable \<Rightarrow> nat \<Rightarrow> byte list" where
  "VectorPointTable_point_bytes t index =
     take (VectorPointTable.m_pointSize t) (drop (VectorPointTable_getPoint t index) (m_data t))"

text \<open>
  \<open>acquire\<close> returns \<open>std::move(m_data)\<close>. The caller that takes the buffer from this
  reference leaves \<open>m_data\<close> empty; the result is the buffer handed out and the table
  left behind.
\<close>

definition VectorPointTable_acquire :: "VectorPointTable \<Rightarrow> byte list \<times> VectorPointTable" where
  "VectorPointTable_acquire t = (m_data t, t\<lparr> m_data := [] \<rparr>)"

text \<open>\<open>skip\<close> and \<open>setSkip\<close> go through \<open>std::vector::at\<close>, which checks the index.\<close>

definition VectorPointTable_skip :: "VectorPointTable \<Rightarrow> nat \<Rightarrow> error + bool" where
  "VectorPointTable_skip t n =
     (if n < length (m_skips t) then Inr (m_skips t ! n) else Inl out_of_range)"

definition VectorPointTable_setSkip :: "VectorPointTable \<Rightarrow> nat \<Rightarrow> error + VectorPointTable" where
  "VectorPointTable_setSkip t n =
     (if n < length (m_skips t) then Inr (t\<lparr> m_skips := (m_skips t)[n := True] \<rparr>)
      else Inl out_of_range)"

definition VectorPointTable_setNumPoints :: "VectorPointTable \<Rightarrow> nat \<Rightarrow> VectorPointTable" where
  "VectorPointTable_setNumPoints t s = t\<lparr> m_size := s \<rparr>"

subsection \<open>Iterator\<close>

text \<open>
  An iterator holds a reference to its table, so every operation on it takes the table
  as an argument. \<open>m_pointRef\<close> is bound to the point \<open>m_index\<close>.
\<close>

record Iterator =
  m_index :: nat
  m_pointRef :: PointRef

text \<open>
  The loop \<open>while (m_index < m_table.size() && m_table.skip(m_index)) ++m_index\<close>.
  The increment runs only below \<open>m_table.size()\<close>, a \<open>std::size_t\<close>, so it cannot wrap.
  \<open>skip\<close> may throw.
\<close>

function Iterator_skip_forward :: "VectorPointTable \<Rightarrow> nat \<Rightarrow> error + nat" where
  "Iterator_skip_forward t i =
     (if i < VectorPointTable_size t
      then (case VectorPointTable_skip t i of
              Inl e \<Rightarrow> Inl e
            | Inr s \<Rightarrow> if s then Iterator_skip_forward t (Suc i) else Inr i)
      else Inr i)"
  by pat_completeness auto
termination
  by (relation "measure (\<lambda>(t, i). VectorPointTable_size t - i)") auto

declare Iterator_skip_forward.simps [simp del]

definition Iterator_new :: "VectorPointTable \<Rightarrow> nat \<Rightarrow> error + Iterator" where
  "Iterator_new t index =
     (case Iterator_skip_forward t index of
        Inl e \<Rightarrow> Inl e
      | Inr i \<Rightarrow> Inr \<lparr> Iterator.m_index = i, m_pointRef = PointRef i \<rparr>)"

text \<open>
  \<open>operator++()\<close>: the \<open>do ... while\<close> loop increments once (a \<open>pdal::PointId\<close>
  increment, modulo \<open>2 ^ 64\<close>) and then goes on as the loop above.
\<close>

definition Iterator_increment :: "VectorPointTable \<Rightarrow> Iterator \<Rightarrow> error + Iterator" where
  "Iterator_increment t it =
     (case Iterator_skip_forward t (u64 (Iterator.m_index it + 1)) of
        Inl e \<Rightarrow> Inl e
      | Inr i \<Rightarrow> Inr \<lparr> Iterator.m_index = i, m_pointRef = PointRef i \<rparr>)"

text \<open>
  \<open>operator++(int)\<close> copies the iterator, increments the copy and returns it. The
  result is the returned value together with the iterator the operator was applied to,
  as the call leaves it.
\<close>

definition Iterator_post_increment ::
  "VectorPointTable \<Rightarrow> Iterator \<Rightarrow> (error + Iterator) \<times> Iterator" where
  "Iterator_post_increment t it =
     (let other = it in (Iterator_increment t other, it))"

definition Iterator_neq :: "Iterator \<Rightarrow> Iterator \<Rightarrow> bool" where
  "Iterator_neq a rhs = (Iterator.m_index a \<noteq> Iterator.m_index rhs)"

definition VectorPointTable_begin :: "VectorPointTable \<Rightarrow> error + Iterator" where
  "VectorPointTable_begin t = Iterator_new t 0"

definition VectorPointTable_end :: "VectorPointTable \<Rightarrow> error + Iterator" where
  "VectorPointTable_end t = Iterator_new t (VectorPointTable_size t)"

text \<open>
  Iterating a table is the loop
  \<open>for (auto it = t.begin(); it != t.end(); ++it) yield(*it)\<close>.
  The result lists the point numbers of the handles yielded, in order. The loop need
  not terminate for arbitrary iterators, so its result is optional.
\<close>

partial_function (option) Iterator_loop ::
  "VectorPointTable \<Rightarrow> Iterator \<Rightarrow> Iterator \<Rightarrow> nat list \<Rightarrow> (error + nat list) option" where
  "Iterator_loop t it stop acc =
     (if Iterator_neq it stop
      then (case Iterator_increment t it of
              Inl e \<Rightarrow> Some (Inl e)
            | Inr it' \<Rightarrow> Iterator_loop t it' stop (acc @ [Iterator.m_index it]))
      else Some (Inr acc))"

definition VectorPointTable_iterate :: "VectorPointTable \<Rightarrow> (error + nat list) option" where
  "VectorPointTable_iterate t =
     (case VectorPointTable_begin t of
        Inl e \<Rightarrow> Some (Inl e)
      | Inr first \<Rightarrow>
          (case VectorPointTable_end t of
             Inl e \<Rightarrow> Some (Inl e)
           | Inr stop \<Rightarrow> Iterator_loop t first stop []))"

section \<open>Sequences of table operations\<close>

text \<open>
  A table comes into being through one of its two constructors and is then driven by
  \<open>resize\<close>, \<open>assign\<close>, \<open>setNumPoints\<close>, \<open>setSkip\<close> and \<open>acquire\<close>.
\<close>

datatype construction = Sized nat | Adopt "byte list"

datatype operation = Resize nat | Assign "byte list" | SetNumPoints nat | SetSkip nat | Acquire

fun construct :: "nat \<Rightarrow> construction \<Rightarrow> error + VectorPointTable" where
  "construct ps (Sized np) = Inr (VectorPointTable_sized ps np)"
| "construct ps (Adopt buffer) = VectorPointTable_adopt ps buffer"

fun perform :: "VectorPointTable \<Rightarrow> operation \<Rightarrow> error + VectorPointTable" where
  "perform t (Resize np) = Inr (VectorPointTable_resize t np)"
| "perform t (Assign buffer) = VectorPointTable_assign t buffer"
| "perform t (SetNumPoints s) = Inr (VectorPointTable_setNumPoints t s)"
| "perform t (SetSkip n) = VectorPointTable_setSkip t n"
| "perform t Acquire = Inr (snd (VectorPointTable_acquire t))"

text \<open>
  The table after each operation of a sequence, in order. An operation that throws
  leaves the table as it found it, and the sequence goes on.
\<close>

fun tables_after :: "VectorPointTable \<Rightarrow> operation list \<Rightarrow> VectorPointTable list" where
  "tables_after t [] = []"
| "tables_after t (x # xs) =
     (case perform t x of
        Inl e \<Rightarrow> t # tables_after t xs
      | Inr t' \<Rightarrow> t' # tables_after t' xs)"

fun is_SetNumPoints :: "operation \<Rightarrow> bool" where
  "is_SetNumPoints (SetNumPoints s) = True"
| "is_SetNumPoints x = False"

text \<open>
  A point count fits when its byte count \<open>np * pointSize\<close> is below \<open>2 ^ 64\<close>; an
  assigned buffer fits when it holds a whole number of points.
\<close>

fun construction_fits :: "nat \<Rightarrow> construction \<Rightarrow> bool" where
  "construction_fits ps (Sized np) = (np * ps < 2 ^ 64)"
| "construction_fits ps (Adopt buffer) = True"

fun operation_fits :: "nat \<Rightarrow> operation \<Rightarrow> bool" where
  "operation_fits ps (Resize np) = (np * ps < 2 ^ 64)"
| "operation_fits ps (Assign buffer) = (length buffer mod ps = 0)"
| "operation_fits ps x = True"

text \<open>The two invariants of the data model.\<close>

definition mask_matches :: "VectorPointTable \<Rightarrow> bool" where
  "mask_matches t = (length (m_skips t) = m_size t)"

definition buffer_whole :: "VectorPointTable \<Rightarrow> bool" where
  "buffer_whole t = (length (m_data t) mod VectorPointTable.m_pointSize t = 0)"

section \<open>Example tables\<close>

text \<open>Four zeroed 8-byte points, point 1 skipped.\<close>

definition example_table :: VectorPointTable where
  "example_table =
     \<lparr> VectorPointTable.m_pointSize = 8, m_data = replicate 32 0, m_size = 4,
       m_skips = [False, True, False, False] \<rparr>"

text \<open>Two 8-byte points, both skipped.\<close>

definition all_skipped_table :: VectorPointTable where
  "all_skipped_table =
     \<lparr> VectorPointTable.m_pointSize = 8, m_data = replicate 16 0, m_size = 2,
       m_skips = [True, True] \<rparr>"

text \<open>Four 1-byte points with the contents 1, 2, 3, 4, point 2 skipped.\<close>

definition filled_table :: VectorPointTable where
  "filled_table =
     \<lparr> VectorPointTable.m_pointSize = 1, m_data = [1, 2, 3, 4], m_size = 4,
       m_skips = [False, False, True, False] \<rparr>"

text \<open>Two 2-byte points with the contents 1, 2 and 3, 4, point 1 skipped.\<close>

definition pair_table :: VectorPointTable where
  "pair_table =
     \<lparr> VectorPointTable.m_pointSize = 2, m_data = [1, 2, 3, 4], m_size = 2,
       m_skips = [False, True] \<rparr>"

section \<open>Closed forms used in the proofs\<close>

text \<open>
  The slot that call number \<open>j + 1\<close> of \<open>next()\<close> hands out when a block holds \<open>k\<close>
  points of \<open>ps\<close> bytes, and the arena as \<open>n\<close> calls leave it.
\<close>

definition slot :: "nat \<Rightarrow> nat \<Rightarrow> nat \<Rightarrow> ptr" where
  "slot ps k j = Ptr (j div k) (j mod k * ps)"

definition arena_after :: "nat \<Rightarrow> nat \<Rightarrow> nat \<Rightarrow> MemBlock" where
  "arena_after ps k n =
     \<lparr> MemBlock.m_pointSize = ps,
       m_pointsPerBlock = k,
       m_bytesPerBlock = k * ps,
       m_blocks = replicate (case n of 0 \<Rightarrow> 0 | Suc m \<Rightarrow> Suc (m div k)) (replicate (k * ps) 0),
       m_pos = (case n of 0 \<Rightarrow> nullptr | Suc m \<Rightarrow> Ptr (m div k) (Suc (m mod k) * ps)),
       m_end = (case n of 0 \<Rightarrow> nullptr | Suc m \<Rightarrow> Ptr (m div k) (k * ps)),
       MemBlock.m_refs = map (slot ps k) [0..<n] \<rparr>"

section \<open>Properties of the block arena\<close>

lemma u64_id: "n < 2 ^ 64 \<Longrightarrow> u64 n = n"
  by (simp add: u64_def)

lemma arena_after_0:
  "k * ps < 2 ^ 64 \<Longrightarrow> MemBlock_new ps k = arena_after ps k 0"
  by (simp add: MemBlock_new_def arena_after_def u64_id)

lemma cursor_at_end:
  assumes "1 \<le> ps" "1 \<le> k"
  shows "(Suc (m mod k) * ps = k * ps) = (Suc m mod k = 0)"
proof -
  have "(Suc (m mod k) * ps = k * ps) = (Suc (m mod k) = k)"
    using assms by (simp only: mult_cancel2) simp
  also have "\<dots> = (Suc m mod k = 0)"
    by (simp add: mod_Suc)
  finally show ?thesis .
qed

lemma next_arena_after:
  assumes "1 \<le> ps" "1 \<le> k"
  shows "MemBlock_next (arena_after ps k n) = (slot ps k n, arena_after ps k (Suc n))"
proof (cases n)
  case 0
  then show ?thesis
    by (simp add: MemBlock_next_def MemBlock_grow_def arena_after_def slot_def Let_def)
next
  case (Suc m)
  show ?thesis
  proof (cases "Suc m mod k = 0")
    case True
    then show ?thesis
      using assms cursor_at_end [OF assms, of m] Suc
      by (simp add: MemBlock_next_def MemBlock_grow_def arena_after_def slot_def Let_def
          div_Suc replicate_append_same)
  next
    case False
    then have "Suc m mod k = Suc (m mod k)"
      by (simp add: mod_Suc split: if_splits)
    then show ?thesis
      using assms cursor_at_end [OF assms, of m] Suc False
      by (simp add: MemBlock_next_def MemBlock_grow_def arena_after_def slot_def Let_def
          div_Suc)
  qed
qed

lemma calls_arena_after:
  assumes "1 \<le> ps" "1 \<le> k" "k * ps < 2 ^ 64"
  shows "MemBlock_calls n (MemBlock_new ps k) = arena_after ps k n"
proof (induction n)
  case 0
  show ?case using assms by (simp add: arena_after_0)
next
  case (Suc n)
  then show ?case using assms by (simp add: next_arena_after)
qed

lemma returned_slots:
  assumes "1 \<le> ps" "1 \<le> k" "k * ps < 2 ^ 64"
  shows "MemBlock_returned n (MemBlock_new ps k) = map (slot ps k) [0..<n]"
  using assms by (simp add: MemBlock_returned_def calls_arena_after next_arena_after)

lemma slot_inj:
  assumes "1 \<le> ps"
  shows "inj (slot ps k)"
proof (rule injI)
  fix i j assume "slot ps k i = slot ps k j"
  then have d: "i div k = j div k" and m: "i mod k = j mod k"
    using assms by (simp_all add: slot_def)
  have "i = k * (i div k) + i mod k" by simp
  also have "\<dots> = k * (j div k) + j mod k" using d m by simp
  also have "\<dots> = j" by simp
  finally show "i = j" .
qed

lemma distinct_slots: "1 \<le> ps \<Longrightarrow> distinct (map (slot ps k) [0..<n])"
  by (simp add: distinct_map inj_on_subset [OF slot_inj])

lemma allocates_iff:
  assumes "1 \<le> ps" "1 \<le> k" "k * ps < 2 ^ 64" "1 \<le> j"
  shows "MemBlock_allocates (MemBlock_new ps k) j = ((j - 1) mod k = 0)"
proof -
  obtain m where j: "j = Suc m" using assms(4) by (cases j) auto
  have unfolded: "MemBlock_allocates (MemBlock_new ps k) (Suc m)
      = (length (m_blocks (arena_after ps k (Suc m))) = Suc (length (m_blocks (arena_after ps k m))))"
    unfolding MemBlock_allocates_def calls_arena_after [OF assms(1-3)] by simp
  have "MemBlock_allocates (MemBlock_new ps k) (Suc m) = (m mod k = 0)"
    unfolding unfolded by (cases m) (simp_all add: arena_after_def div_Suc)
  then show ?thesis using j by simp
qed

text \<open>
  C4. For every arena with \<open>pointSize \<ge> 1\<close>, \<open>pointsPerBlock \<ge> 1\<close> and a block byte
  count \<open>pointsPerBlock * pointSize\<close> below \<open>2 ^ 64\<close> (so that \<open>m_bytesPerBlock\<close> is the
  true product), and every number \<open>n\<close> of calls of \<open>next()\<close> on the new arena:
  \<open>size()\<close> is \<open>n\<close>, \<open>refs()\<close> lists the addresses returned, these are pairwise distinct,
  and call number \<open>j\<close> allocates a block exactly when \<open>j - 1\<close> is a multiple of
  \<open>pointsPerBlock\<close>, that is on the calls \<open>1, k + 1, 2k + 1, ...\<close>.
\<close>

theorem MemBlock_next_sequence:
  assumes "1 \<le> pointSize" and "1 \<le> pointsPerBlock"
    and "pointsPerBlock * pointSize < 2 ^ 64"
  shows "MemBlock_size (MemBlock_calls n (MemBlock_new pointSize pointsPerBlock)) = n
       \<and> MemBlock_refs (MemBlock_calls n (MemBlock_new pointSize pointsPerBlock))
           = MemBlock_returned n (MemBlock_new pointSize pointsPerBlock)
       \<and> distinct (MemBlock_returned n (MemBlock_new pointSize pointsPerBlock))
       \<and> (\<forall>j. 1 \<le> j \<longrightarrow>
             MemBlock_allocates (MemBlock_new pointSize pointsPerBlock) j
               = ((j - 1) mod pointsPerBlock = 0))"
  using assms
  by (simp add: MemBlock_size_def MemBlock_refs_def calls_arena_after returned_slots
      distinct_slots allocates_iff arena_after_def)

text \<open>
  Five calls on an arena of 8-byte points, two to a block: blocks are allocated on the
  calls 1, 3 and 5.
\<close>

theorem MemBlock_next_sequence_witness:
  "(1::nat) \<le> 8 \<and> (1::nat) \<le> 2 \<and> (2::nat) * 8 < 2 ^ 64
   \<and> MemBlock_size (MemBlock_calls 5 (MemBlock_new 8 2)) = 5
   \<and> distinct (MemBlock_returned 5 (MemBlock_new 8 2))
   \<and> MemBlock_allocates (MemBlock_new 8 2) 3
   \<and> \<not> MemBlock_allocates (MemBlock_new 8 2) 4"
  using MemBlock_next_sequence [of 8 2 5]
  by simp

text \<open>
  When the product wraps, the blocks are too small. With \<open>pointSize = 2 ^ 34\<close> and
  \<open>pointsPerBlock = 2 ^ 30 + 1\<close> the product is \<open>2 ^ 64 + 2 ^ 34\<close>, so \<open>m_bytesPerBlock\<close>
  is \<open>2 ^ 34\<close>: a block holds one point, and the second call allocates again although
  \<open>2\<close> is none of \<open>1, k + 1, 2k + 1, ...\<close>.
\<close>

theorem MemBlock_overflow_counterexample:
  "(1::nat) \<le> 2 ^ 34 \<and> (1::nat) \<le> 2 ^ 30 + 1
   \<and> MemBlock_allocates (MemBlock_new (2 ^ 34) (2 ^ 30 + 1)) (Suc (Suc 0))
   \<and> (Suc (Suc 0) - 1) mod (2 ^ 30 + 1) \<noteq> (0::nat)"
  by (simp add: MemBlock_allocates_def MemBlock_next_def MemBlock_grow_def MemBlock_new_def
      u64_def Let_def)

section \<open>Properties of the write adapter\<close>

text \<open>
  C5. For every pair of arenas \<open>a\<close>, \<open>b\<close>, the adapter built from them has
  \<open>size() = a.size() + b.size()\<close>; \<open>getPoint(i)\<close> is \<open>a.refs()[i]\<close> for every
  \<open>i < a.size()\<close>, and \<open>b.refs()[i - a.size()]\<close> for every \<open>i\<close> from \<open>a.size()\<close> up to
  \<open>a.size() + b.size()\<close>.
\<close>

theorem BlockPointTable_concatenates:
  "BlockPointTable_size (BlockPointTable_new a b) = MemBlock_size a + MemBlock_size b
   \<and> (\<forall>i < MemBlock_size a.
         BlockPointTable_getPoint (BlockPointTable_new a b) i = Inr (MemBlock_refs a ! i))
   \<and> (\<forall>i. MemBlock_size a \<le> i \<and> i < MemBlock_size a + MemBlock_size b \<longrightarrow>
         BlockPointTable_getPoint (BlockPointTable_new a b) i
           = Inr (MemBlock_refs b ! (i - MemBlock_size a)))"
  by (auto simp add: BlockPointTable_size_def BlockPointTable_new_def MemBlock_size_def
      MemBlock_refs_def BlockPointTable_getPoint_def nth_append)

text \<open>
  An arena with two slots and one with a single slot: index 1 is the second slot of the
  first arena, index 2 the first slot of the second.
\<close>

theorem BlockPointTable_concatenates_witness:
  "MemBlock_size (MemBlock_calls (Suc (Suc 0)) (MemBlock_new 8 2)) = 2
   \<and> MemBlock_size (MemBlock_calls (Suc 0) (MemBlock_new 4 1)) = 1
   \<and> BlockPointTable_size (BlockPointTable_new (MemBlock_calls (Suc (Suc 0)) (MemBlock_new 8 2))
        (MemBlock_calls (Suc 0) (MemBlock_new 4 1))) = 3
   \<and> BlockPointTable_getPoint (BlockPointTable_new (MemBlock_calls (Suc (Suc 0)) (MemBlock_new 8 2))
        (MemBlock_calls (Suc 0) (MemBlock_new 4 1))) 1
       = Inr (MemBlock_refs (MemBlock_calls (Suc (Suc 0)) (MemBlock_new 8 2)) ! 1)
   \<and> BlockPointTable_getPoint (BlockPointTable_new (MemBlock_calls (Suc (Suc 0)) (MemBlock_new 8 2))
        (MemBlock_calls (Suc 0) (MemBlock_new 4 1))) 2
       = Inr (MemBlock_refs (MemBlock_calls (Suc 0) (MemBlock_new 4 1)) ! (2 - 2))"
  using BlockPointTable_concatenates [of "MemBlock_calls (Suc (Suc 0)) (MemBlock_new 8 2)"
      "MemBlock_calls (Suc 0) (MemBlock_new 4 1)"]
  by (simp add: MemBlock_size_def MemBlock_next_def MemBlock_grow_def MemBlock_new_def Let_def)

section \<open>Properties of the streaming table\<close>

lemma length_vector_resize [simp]: "length (vector_resize xs n v) = n"
  by (simp add: vector_resize_def)

lemma upt4: "[0..<4] = [0, 1, 2, 3]"
  by (simp add: upt_rec)

lemma replicate4: "replicate 4 x = [x, x, x, x]"
  by (simp add: numeral_eq_Suc)

lemma sized_8_4:
  "VectorPointTable_sized 8 4 =
     \<lparr> VectorPointTable.m_pointSize = 8, m_data = replicate 32 0, m_size = 4,
       m_skips = [False, False, False, False] \<rparr>"
  by (simp add: VectorPointTable_sized_def u64_def replicate4)

lemma replicate2: "replicate 2 x = [x, x]"
  by (simp add: numeral_2_eq_2)

lemma adopt_rejects:
  "1 \<le> pointSize \<Longrightarrow> length buffer mod pointSize \<noteq> 0 \<Longrightarrow>
   VectorPointTable_adopt pointSize buffer = Inl runtime_error"
  by (simp add: VectorPointTable_adopt_def)

lemma assign_never_throws:
  "1 \<le> VectorPointTable.m_pointSize t \<Longrightarrow>
   \<exists>t'. VectorPointTable_assign t buffer = Inr t' \<and> m_data t' = buffer
     \<and> m_size t' = length buffer div VectorPointTable.m_pointSize t"
  by (simp add: VectorPointTable_assign_def)

text \<open>
  C1. A buffer whose length is no multiple of \<open>pointSize\<close> is to be refused both by the
  adopting constructor and by \<open>assign()\<close>. The constructor refuses it, \<open>assign()\<close> does
  not: with \<open>pointSize = 16\<close>, a table of one point takes a buffer of 17 bytes, ends
  with a logical size of 1 and reports nothing, where the constructor throws on the same
  buffer.
\<close>

theorem assign_accepts_invalid_length:
  "VectorPointTable_assign (VectorPointTable_sized 16 1) (replicate 17 0)
     = Inr \<lparr> VectorPointTable.m_pointSize = 16, m_data = replicate 17 0, m_size = 1,
             m_skips = [False] \<rparr>
   \<and> VectorPointTable_adopt 16 (replicate 17 0) = Inl runtime_error"
  by (simp add: VectorPointTable_assign_def VectorPointTable_sized_def VectorPointTable_adopt_def
      vector_resize_def)

text \<open>
  C9. For every \<open>pointSize \<ge> 1\<close> and every buffer of \<open>n * pointSize\<close> bytes, the
  adopting constructor succeeds with \<open>n\<close> points, and \<open>acquire()\<close> right after it
  hands back the very buffer that was adopted.
\<close>

theorem adopt_acquire_roundtrip:
  assumes "1 \<le> pointSize" and "length buffer = n * pointSize"
  shows "\<exists>t. VectorPointTable_adopt pointSize buffer = Inr t
           \<and> VectorPointTable_size t = n
           \<and> fst (VectorPointTable_acquire t) = buffer"
  using assms
  by (simp add: VectorPointTable_adopt_def VectorPointTable_acquire_def VectorPointTable_size_def)

text \<open>
  Two 2-byte points.
\<close>

theorem adopt_acquire_roundtrip_witness:
  "(1::nat) \<le> 2 \<and> length [1, 2, 3, 4 :: byte] = 2 * 2
   \<and> (\<exists>t. VectorPointTable_adopt 2 [1, 2, 3, 4] = Inr t
         \<and> VectorPointTable_size t = 2
         \<and> fst (VectorPointTable_acquire t) = [1, 2, 3, 4])"
  using adopt_acquire_roundtrip [of 2 "[1, 2, 3, 4]" 2]
  by simp

text \<open>
  C8. For every table, \<open>at(index)\<close> fails with \<open>out_of_range\<close> exactly when
  \<open>index \<ge> size()\<close>, and otherwise returns a handle bound to \<open>index\<close>; in particular
  \<open>at(size() - 1)\<close> succeeds when \<open>size() \<ge> 1\<close>. The call leaves the table as it was,
  whether it fails or not.
\<close>

theorem at_bounds:
  "(fst (VectorPointTable_at t index) = Inl out_of_range) = (VectorPointTable_size t \<le> index)
   \<and> (VectorPointTable_size t \<le> index \<or> fst (VectorPointTable_at t index) = Inr (PointRef index))
   \<and> fst (VectorPointTable_at t (VectorPointTable_size t)) = Inl out_of_range
   \<and> (1 \<le> VectorPointTable_size t \<longrightarrow>
        fst (VectorPointTable_at t (VectorPointTable_size t - 1))
          = Inr (PointRef (VectorPointTable_size t - 1)))
   \<and> snd (VectorPointTable_at t index) = t"
  by (auto simp add: VectorPointTable_at_def)

text \<open>
  On the example table of four points, \<open>at(3)\<close> succeeds and \<open>at(4)\<close> fails.
\<close>

theorem at_bounds_witness:
  "(1::nat) \<le> VectorPointTable_size example_table
   \<and> fst (VectorPointTable_at example_table (VectorPointTable_size example_table - 1))
       = Inr (PointRef 3)
   \<and> fst (VectorPointTable_at example_table 4) = Inl out_of_range
   \<and> snd (VectorPointTable_at example_table 4) = example_table"
  using at_bounds [of example_table 4]
  by (simp add: VectorPointTable_size_def example_table_def)

lemma vector_resize_grow:
  "length xs \<le> n \<Longrightarrow> vector_resize xs n v = xs @ replicate (n - length xs) v"
  by (simp add: vector_resize_def)

lemma vector_resize_shrink:
  "n \<le> length xs \<Longrightarrow> vector_resize xs n v = take n xs"
  by (simp add: vector_resize_def)

lemma last_point_kept:
  assumes "1 \<le> n"
  shows "take ps (drop ((n - 1) * ps) (take (n * ps) xs)) = take ps (drop ((n - 1) * ps) xs)"
proof -
  have "n * ps - (n - 1) * ps = ps"
    using assms by (simp add: diff_mult_distrib)
  then show ?thesis
    by (simp add: drop_take)
qed

text \<open>
  C7. Take a table of \<open>m\<close> points: logical size \<open>m\<close>, a buffer of \<open>m * pointSize\<close>
  bytes, a skip mask of \<open>m\<close> entries; and a new point count \<open>n\<close> whose byte count
  \<open>n * pointSize\<close> is below \<open>2 ^ 64\<close>. If \<open>n > m\<close>, \<open>resize(n)\<close> keeps the buffer and
  appends \<open>(n - m) * pointSize\<close> zero bytes, and keeps the mask and appends \<open>n - m\<close>
  unskipped entries. If \<open>n < m\<close>, it cuts the buffer down to its first \<open>n * pointSize\<close>
  bytes and the mask to its first \<open>n\<close> entries, and for \<open>n \<ge> 1\<close> a following
  \<open>at(n - 1)\<close> succeeds with a handle that reads the bytes the point had before.
\<close>

theorem resize_grows_and_shrinks:
  assumes "VectorPointTable.m_pointSize t = ps" and "m_size t = m"
    and "length (m_data t) = m * ps" and "length (m_skips t) = m"
    and "n * ps < 2 ^ 64"
  shows "(m < n \<longrightarrow>
            m_data (VectorPointTable_resize t n) = m_data t @ replicate ((n - m) * ps) 0
          \<and> m_skips (VectorPointTable_resize t n) = m_skips t @ replicate (n - m) False
          \<and> VectorPointTable_size (VectorPointTable_resize t n) = n)
       \<and> (n < m \<longrightarrow>
            m_data (VectorPointTable_resize t n) = take (n * ps) (m_data t)
          \<and> m_skips (VectorPointTable_resize t n) = take n (m_skips t)
          \<and> VectorPointTable_size (VectorPointTable_resize t n) = n
          \<and> (1 \<le> n \<longrightarrow>
                fst (VectorPointTable_at (VectorPointTable_resize t n) (n - 1)) = Inr (PointRef (n - 1))
              \<and> VectorPointTable_point_bytes (VectorPointTable_resize t n) (n - 1)
                  = VectorPointTable_point_bytes t (n - 1)))"
proof (intro conjI impI)
  assume "m < n"
  then have "m * ps \<le> n * ps" by simp
  then show "m_data (VectorPointTable_resize t n) = m_data t @ replicate ((n - m) * ps) 0"
    using assms by (simp add: VectorPointTable_resize_def u64_id vector_resize_grow diff_mult_distrib)
  show "m_skips (VectorPointTable_resize t n) = m_skips t @ replicate (n - m) False"
    using assms \<open>m < n\<close> by (simp add: VectorPointTable_resize_def vector_resize_grow)
  show "VectorPointTable_size (VectorPointTable_resize t n) = n"
    by (simp add: VectorPointTable_resize_def VectorPointTable_size_def)
next
  assume "n < m"
  then have le: "n * ps \<le> m * ps" by simp
  then show data: "m_data (VectorPointTable_resize t n) = take (n * ps) (m_data t)"
    using assms by (simp add: VectorPointTable_resize_def u64_id vector_resize_shrink)
  show "m_skips (VectorPointTable_resize t n) = take n (m_skips t)"
    using assms \<open>n < m\<close> by (simp add: VectorPointTable_resize_def vector_resize_shrink)
  show "VectorPointTable_size (VectorPointTable_resize t n) = n"
    by (simp add: VectorPointTable_resize_def VectorPointTable_size_def)
  assume "1 \<le> n"
  then show "fst (VectorPointTable_at (VectorPointTable_resize t n) (n - 1)) = Inr (PointRef (n - 1))"
    by (simp add: VectorPointTable_at_def VectorPointTable_resize_def VectorPointTable_size_def)
  have "(n - 1) * ps \<le> n * ps" by simp
  with assms(5) have "(n - 1) * ps < 2 ^ 64" by linarith
  then show "VectorPointTable_point_bytes (VectorPointTable_resize t n) (n - 1)
      = VectorPointTable_point_bytes t (n - 1)"
    using data assms(1) last_point_kept [OF \<open>1 \<le> n\<close>, of ps "m_data t"]
    by (simp add: VectorPointTable_point_bytes_def VectorPointTable_getPoint_def u64_id
        VectorPointTable_resize_def)
qed

text \<open>
  The table of two 2-byte points, grown to three points and cut down to one.
\<close>

theorem resize_grows_and_shrinks_witness:
  "VectorPointTable.m_pointSize pair_table = 2 \<and> m_size pair_table = 2
   \<and> length (m_data pair_table) = 2 * 2 \<and> length (m_skips pair_table) = 2
   \<and> (3::nat) * 2 < 2 ^ 64 \<and> (2::nat) < 3
   \<and> m_data (VectorPointTable_resize pair_table 3) = [1, 2, 3, 4, 0, 0]
   \<and> m_skips (VectorPointTable_resize pair_table 3) = [False, True, False]
   \<and> (1::nat) * 2 < 2 ^ 64 \<and> (1::nat) < 2 \<and> (1::nat) \<le> 1
   \<and> m_data (VectorPointTable_resize pair_table 1) = [1, 2]
   \<and> m_skips (VectorPointTable_resize pair_table 1) = [False]
   \<and> fst (VectorPointTable_at (VectorPointTable_resize pair_table 1) (1 - 1)) = Inr (PointRef 0)
   \<and> VectorPointTable_point_bytes (VectorPointTable_resize pair_table 1) (1 - 1) = [1, 2]"
  using resize_grows_and_shrinks [of pair_table 2 2 3] resize_grows_and_shrinks [of pair_table 2 2 1]
  by (simp add: pair_table_def VectorPointTable_point_bytes_def VectorPointTable_getPoint_def
      VectorPointTable_resize_def VectorPointTable_at_def VectorPointTable_size_def
      vector_resize_def u64_def replicate2)

text \<open>
  Two ways in which \<open>resize\<close> does otherwise. Adopt the four bytes 1, 2, 3, 4 as
  1-byte points and skip point 2. After \<open>setNumPoints(2)\<close> the logical size is 2, and
  \<open>resize(3)\<close> cuts the buffer and the mask from four entries to three: the point
  gained holds the old byte 3, not zero, and is still skipped. And on a table of one
  16-byte point, \<open>resize(2 ^ 60)\<close> asks for \<open>2 ^ 64\<close> bytes, which wraps to 0: the
  buffer is emptied.
\<close>

theorem resize_counterexample:
  "VectorPointTable_adopt 1 [1, 2, 3, 4]
     = Inr (filled_table\<lparr> m_skips := [False, False, False, False] \<rparr>)
   \<and> VectorPointTable_setSkip (filled_table\<lparr> m_skips := [False, False, False, False] \<rparr>) 2
     = Inr filled_table
   \<and> VectorPointTable_size (VectorPointTable_setNumPoints filled_table 2) = 2
   \<and> VectorPointTable_resize (VectorPointTable_setNumPoints filled_table 2) 3
       = \<lparr> VectorPointTable.m_pointSize = 1, m_data = [1, 2, 3], m_size = 3,
           m_skips = [False, False, True] \<rparr>
   \<and> VectorPointTable_size (VectorPointTable_sized 16 1) = 1
   \<and> m_data (VectorPointTable_sized 16 1) = replicate 16 0
   \<and> m_data (VectorPointTable_resize (VectorPointTable_sized 16 1) (2 ^ 60)) = []"
  by (simp add: filled_table_def VectorPointTable_setNumPoints_def VectorPointTable_resize_def
      VectorPointTable_size_def VectorPointTable_sized_def vector_resize_def u64_def
      VectorPointTable_adopt_def VectorPointTable_setSkip_def replicate4)

lemma construct_mask:
  "construct ps c = Inr t \<Longrightarrow> mask_matches t"
  by (cases c) (auto simp: mask_matches_def VectorPointTable_sized_def VectorPointTable_adopt_def
      split: if_splits)

lemma construct_buffer:
  "1 \<le> ps \<Longrightarrow> construction_fits ps c \<Longrightarrow> construct ps c = Inr t \<Longrightarrow>
   buffer_whole t \<and> VectorPointTable.m_pointSize t = ps"
  by (cases c) (auto simp: buffer_whole_def VectorPointTable_sized_def VectorPointTable_adopt_def
      u64_id split: if_splits)

lemma perform_mask:
  "mask_matches t \<Longrightarrow> \<not> is_SetNumPoints x \<Longrightarrow> perform t x = Inr t' \<Longrightarrow> mask_matches t'"
  by (cases x) (auto simp: mask_matches_def VectorPointTable_resize_def VectorPointTable_assign_def
      VectorPointTable_setSkip_def VectorPointTable_acquire_def split: if_splits)

lemma perform_buffer:
  "buffer_whole t \<and> VectorPointTable.m_pointSize t = ps \<Longrightarrow> operation_fits ps x \<Longrightarrow>
   perform t x = Inr t' \<Longrightarrow> buffer_whole t' \<and> VectorPointTable.m_pointSize t' = ps"
  by (cases x) (auto simp: buffer_whole_def VectorPointTable_resize_def VectorPointTable_assign_def
      VectorPointTable_setSkip_def VectorPointTable_acquire_def VectorPointTable_setNumPoints_def
      u64_id split: if_splits)

lemma tables_after_mask:
  "mask_matches t \<Longrightarrow> list_all (\<lambda>x. \<not> is_SetNumPoints x) ops \<Longrightarrow>
   list_all mask_matches (tables_after t ops)"
proof (induction ops arbitrary: t)
  case Nil
  show ?case by simp
next
  case (Cons x ops)
  show ?case
  proof (cases "perform t x")
    case (Inl e)
    with Cons show ?thesis by simp
  next
    case (Inr t')
    with Cons.prems have "mask_matches t'"
      using perform_mask [of t x t'] by simp
    with Cons Inr show ?thesis by simp
  qed
qed

lemma tables_after_buffer:
  "buffer_whole t \<and> VectorPointTable.m_pointSize t = ps \<Longrightarrow> list_all (operation_fits ps) ops \<Longrightarrow>
   list_all buffer_whole (tables_after t ops)"
proof (induction ops arbitrary: t)
  case Nil
  show ?case by simp
next
  case (Cons x ops)
  show ?case
  proof (cases "perform t x")
    case (Inl e)
    with Cons show ?thesis by simp
  next
    case (Inr t')
    with Cons.prems have "buffer_whole t' \<and> VectorPointTable.m_pointSize t' = ps"
      using perform_buffer [of t ps x t'] by simp
    with Cons Inr show ?thesis by simp
  qed
qed

text \<open>
  C2. Take \<open>pointSize \<ge> 1\<close>, a table made by either constructor, and any sequence of
  \<open>resize\<close>, \<open>assign\<close>, \<open>setNumPoints\<close>, \<open>setSkip\<close> and \<open>acquire\<close>. If the sequence
  has no \<open>setNumPoints\<close>, the skip mask is as long as the logical size after
  construction and after every operation. If every point count fits and every assigned
  buffer holds a whole number of points, the buffer length is a multiple of \<open>pointSize\<close>
  after construction and after every operation. \<open>resize\<close> and \<open>assign\<close> make the mask
  as long as the logical size whatever the table was before. \<open>setNumPoints(s)\<close> sets
  the logical size to \<open>s\<close> and nothing else, so it leaves the mask as long as it was.
\<close>

theorem table_invariants:
  assumes "1 \<le> pointSize" and "construct pointSize c = Inr t0"
  shows "(list_all (\<lambda>x. \<not> is_SetNumPoints x) ops \<longrightarrow>
            list_all mask_matches (t0 # tables_after t0 ops))
       \<and> (construction_fits pointSize c \<and> list_all (operation_fits pointSize) ops \<longrightarrow>
            list_all buffer_whole (t0 # tables_after t0 ops))
       \<and> mask_matches (VectorPointTable_resize t np)
       \<and> (\<forall>t'. VectorPointTable_assign t buffer = Inr t' \<longrightarrow> mask_matches t')
       \<and> VectorPointTable_setNumPoints t s = t\<lparr> m_size := s \<rparr>"
proof -
  have "mask_matches (VectorPointTable_resize t np)"
    by (simp add: mask_matches_def VectorPointTable_resize_def)
  moreover have "\<forall>t'. VectorPointTable_assign t buffer = Inr t' \<longrightarrow> mask_matches t'"
    by (auto simp: mask_matches_def VectorPointTable_assign_def split: if_splits)
  ultimately show ?thesis
    using assms construct_mask [OF assms(2)] construct_buffer [OF assms(1) _ assms(2)]
      tables_after_mask [of t0 ops] tables_after_buffer [of t0 pointSize ops]
    by (auto simp: VectorPointTable_setNumPoints_def)
qed

text \<open>
  A table of four 8-byte points, then \<open>setSkip(1)\<close>, \<open>resize(2)\<close>, \<open>assign\<close> of 24
  bytes and \<open>acquire()\<close>: both invariants hold throughout.
\<close>

theorem table_invariants_witness:
  "(1::nat) \<le> 8
   \<and> construct 8 (Sized 4) = Inr (VectorPointTable_sized 8 4)
   \<and> list_all (\<lambda>x. \<not> is_SetNumPoints x) [SetSkip 1, Resize 2, Assign (replicate 24 0), Acquire]
   \<and> construction_fits 8 (Sized 4)
   \<and> list_all (operation_fits 8) [SetSkip 1, Resize 2, Assign (replicate 24 0), Acquire]
   \<and> list_all mask_matches (VectorPointTable_sized 8 4 #
        tables_after (VectorPointTable_sized 8 4)
          [SetSkip 1, Resize 2, Assign (replicate 24 0), Acquire])
   \<and> list_all buffer_whole (VectorPointTable_sized 8 4 #
        tables_after (VectorPointTable_sized 8 4)
          [SetSkip 1, Resize 2, Assign (replicate 24 0), Acquire])
   \<and> VectorPointTable_assign example_table (replicate 24 0)
        = Inr (example_table\<lparr> m_data := replicate 24 0, m_size := 3,
                              m_skips := [False, True, False] \<rparr>)
   \<and> mask_matches (example_table\<lparr> m_data := replicate 24 0, m_size := 3,
                              m_skips := [False, True, False] \<rparr>)"
  using table_invariants [of 8 "Sized 4" "VectorPointTable_sized 8 4"
      "[SetSkip 1, Resize 2, Assign (replicate 24 0), Acquire]" example_table 2 "replicate 24 0" 2]
  by (simp add: VectorPointTable_assign_def example_table_def vector_resize_def mask_matches_def)

text \<open>
  \<open>setNumPoints(2)\<close> on a table of four points: the logical size is 2, the mask still
  has four entries.
\<close>

theorem setNumPoints_breaks_mask_invariant:
  "VectorPointTable_size (VectorPointTable_setNumPoints (VectorPointTable_sized 8 4) 2) = 2
   \<and> length (m_skips (VectorPointTable_setNumPoints (VectorPointTable_sized 8 4) 2)) = 4"
  by (simp add: VectorPointTable_setNumPoints_def VectorPointTable_size_def sized_8_4)

section \<open>Properties of the iterator\<close>

lemma skip_forward_ge:
  "Iterator_skip_forward t i = Inr j \<Longrightarrow> i \<le> j"
proof (induction t i rule: Iterator_skip_forward.induct)
  case (1 t i)
  show ?case
  proof (cases "i < VectorPointTable_size t")
    case False
    with "1.prems" show ?thesis by (simp add: Iterator_skip_forward.simps [of t i])
  next
    case True
    show ?thesis
    proof (cases "VectorPointTable_skip t i")
      case (Inl e)
      with True "1.prems" show ?thesis by (simp add: Iterator_skip_forward.simps [of t i])
    next
      case (Inr s)
      show ?thesis
      proof (cases s)
        case True
        with \<open>i < VectorPointTable_size t\<close> Inr "1.prems"
        have "Iterator_skip_forward t (Suc i) = Inr j"
          by (simp add: Iterator_skip_forward.simps [of t i])
        with "1.IH" [OF \<open>i < VectorPointTable_size t\<close> Inr True] show ?thesis by simp
      next
        case False
        with \<open>i < VectorPointTable_size t\<close> Inr "1.prems" show ?thesis
          by (simp add: Iterator_skip_forward.simps [of t i])
      qed
    qed
  qed
qed

text \<open>Position reached by the loop: all points passed are skipped, the one reached is not.\<close>

lemma skip_forward_stops:
  assumes "m_size t \<le> length (m_skips t)"
  shows "\<exists>j. Iterator_skip_forward t i = Inr j \<and> i \<le> j
           \<and> (\<forall>k. i \<le> k \<and> k < j \<longrightarrow> m_skips t ! k)
           \<and> (j < m_size t \<longrightarrow> \<not> m_skips t ! j)
           \<and> (i \<le> m_size t \<longrightarrow> j \<le> m_size t)"
  using assms
proof (induction t i rule: Iterator_skip_forward.induct)
  case (1 t i)
  show ?case
  proof (cases "i < m_size t")
    case False
    then show ?thesis
      by (auto simp add: VectorPointTable_size_def Iterator_skip_forward.simps [of t i])
  next
    case True
    then have sk: "VectorPointTable_skip t i = Inr (m_skips t ! i)"
      using "1.prems" by (simp add: VectorPointTable_skip_def)
    show ?thesis
    proof (cases "m_skips t ! i")
      case False
      with True sk show ?thesis
        by (auto simp add: VectorPointTable_size_def Iterator_skip_forward.simps [of t i])
    next
      case skipped: True
      from True have lt: "i < VectorPointTable_size t" by (simp add: VectorPointTable_size_def)
      from "1.IH" [OF lt sk skipped "1.prems"]
      obtain j where j: "Iterator_skip_forward t (Suc i) = Inr j" "Suc i \<le> j"
        "\<forall>k. Suc i \<le> k \<and> k < j \<longrightarrow> m_skips t ! k"
        "j < m_size t \<longrightarrow> \<not> m_skips t ! j" "Suc i \<le> m_size t \<longrightarrow> j \<le> m_size t"
        by blast
      have eq: "Iterator_skip_forward t i = Inr j"
        using lt sk skipped j(1) by (simp add: Iterator_skip_forward.simps [of t i])
      have "\<forall>k. i \<le> k \<and> k < j \<longrightarrow> m_skips t ! k"
      proof (intro allI impI)
        fix k assume "i \<le> k \<and> k < j"
        then show "m_skips t ! k"
          using skipped j(3) by (cases "k = i") auto
      qed
      with eq j True show ?thesis by auto
    qed
  qed
qed

lemma upt_split: "i \<le> j \<Longrightarrow> j \<le> n \<Longrightarrow> [i..<n] = [i..<j] @ [j..<n]"
  using upt_add_eq_append [of i j "n - j"] by simp

lemma filter_upt_skipped:
  assumes "i < j" "j \<le> n" "\<not> P i" "\<forall>k. Suc i \<le> k \<and> k < j \<longrightarrow> P k"
  shows "filter (\<lambda>k. \<not> P k) [i..<n] = i # filter (\<lambda>k. \<not> P k) [j..<n]"
proof -
  have "[i..<n] = i # [Suc i..<n]"
    using assms(1,2) by (simp add: upt_conv_Cons)
  also have "[Suc i..<n] = [Suc i..<j] @ [j..<n]"
    using assms(1,2) by (intro upt_split) simp_all
  finally have "[i..<n] = i # [Suc i..<j] @ [j..<n]" .
  moreover have "filter (\<lambda>k. \<not> P k) [Suc i..<j] = []"
    using assms(4) by (auto simp: filter_empty_conv)
  ultimately show ?thesis using assms(3) by simp
qed

lemma loop_unskipped:
  assumes "m_size t \<le> length (m_skips t)" "m_size t < 2 ^ 64"
    and "Iterator.m_index stop = m_size t"
  shows "Iterator.m_index it \<le> m_size t \<Longrightarrow>
         (Iterator.m_index it < m_size t \<longrightarrow> \<not> m_skips t ! Iterator.m_index it) \<Longrightarrow>
         Iterator_loop t it stop acc =
           Some (Inr (acc @ filter (\<lambda>k. \<not> m_skips t ! k) [Iterator.m_index it..<m_size t]))"
proof (induction "m_size t - Iterator.m_index it" arbitrary: it acc rule: less_induct)
  case less
  let ?i = "Iterator.m_index it"
  show ?case
  proof (cases "?i = m_size t")
    case True
    then show ?thesis
      using assms(3) by (subst Iterator_loop.simps) (simp add: Iterator_neq_def)
  next
    case False
    with less.prems have lt: "?i < m_size t" and unskipped: "\<not> m_skips t ! ?i" by auto
    from skip_forward_stops [OF assms(1), of "Suc ?i"] lt
    obtain j where j: "Iterator_skip_forward t (Suc ?i) = Inr j" "Suc ?i \<le> j"
      "\<forall>k. Suc ?i \<le> k \<and> k < j \<longrightarrow> m_skips t ! k"
      "j < m_size t \<longrightarrow> \<not> m_skips t ! j" "j \<le> m_size t"
      by (metis Suc_leI)
    let ?it' = "\<lparr> Iterator.m_index = j, m_pointRef = PointRef j \<rparr>"
    have inc: "Iterator_increment t it = Inr ?it'"
      using lt assms(2) j(1) by (simp add: Iterator_increment_def u64_id)
    have "Iterator_loop t ?it' stop (acc @ [?i]) =
            Some (Inr ((acc @ [?i]) @ filter (\<lambda>k. \<not> m_skips t ! k) [Iterator.m_index ?it'..<m_size t]))"
      by (rule less.hyps) (use j lt in simp_all)
    moreover have "filter (\<lambda>k. \<not> m_skips t ! k) [?i..<m_size t]
        = ?i # filter (\<lambda>k. \<not> m_skips t ! k) [j..<m_size t]"
      by (rule filter_upt_skipped) (use j lt unskipped in simp_all)
    ultimately show ?thesis
      using False assms(3) inc
      by (subst Iterator_loop.simps) (simp add: Iterator_neq_def)
  qed
qed

lemma begin_position:
  assumes "m_size t \<le> length (m_skips t)"
  shows "\<exists>b. VectorPointTable_begin t = Inr b \<and> Iterator.m_index b \<le> m_size t
           \<and> (\<forall>k<Iterator.m_index b. m_skips t ! k)
           \<and> (Iterator.m_index b < m_size t \<longrightarrow> \<not> m_skips t ! Iterator.m_index b)"
proof -
  from skip_forward_stops [OF assms, of 0]
  obtain j where j: "Iterator_skip_forward t 0 = Inr j"
      "\<forall>k. 0 \<le> k \<and> k < j \<longrightarrow> m_skips t ! k"
      "j < m_size t \<longrightarrow> \<not> m_skips t ! j" "j \<le> m_size t"
    by auto
  then show ?thesis
    by (simp add: VectorPointTable_begin_def Iterator_new_def)
qed

lemma end_position:
  "VectorPointTable_end t = Inr \<lparr> Iterator.m_index = m_size t, m_pointRef = PointRef (m_size t) \<rparr>"
  by (simp add: VectorPointTable_end_def Iterator_new_def VectorPointTable_size_def
      Iterator_skip_forward.simps [of t "m_size t"])

lemma iterate_unskipped:
  assumes "m_size t \<le> length (m_skips t)" "m_size t < 2 ^ 64"
  shows "VectorPointTable_iterate t =
           Some (Inr (filter (\<lambda>k. \<not> m_skips t ! k) [0..<m_size t]))"
proof -
  from begin_position [OF assms(1)]
  obtain b where b: "VectorPointTable_begin t = Inr b" "Iterator.m_index b \<le> m_size t"
      "\<forall>k<Iterator.m_index b. m_skips t ! k"
      "Iterator.m_index b < m_size t \<longrightarrow> \<not> m_skips t ! Iterator.m_index b"
    by blast
  let ?e = "\<lparr> Iterator.m_index = m_size t, m_pointRef = PointRef (m_size t) \<rparr>"
  have "Iterator_loop t b ?e [] =
      Some (Inr ([] @ filter (\<lambda>k. \<not> m_skips t ! k) [Iterator.m_index b..<m_size t]))"
    by (rule loop_unskipped [OF assms]) (use b in simp_all)
  moreover have "filter (\<lambda>k. \<not> m_skips t ! k) [0..<m_size t]
      = filter (\<lambda>k. \<not> m_skips t ! k) [Iterator.m_index b..<m_size t]"
  proof -
    have "[0..<m_size t] = [0..<Iterator.m_index b] @ [Iterator.m_index b..<m_size t]"
      using b(2) by (intro upt_split) simp_all
    moreover have "filter (\<lambda>k. \<not> m_skips t ! k) [0..<Iterator.m_index b] = []"
      using b(3) by (auto simp: filter_empty_conv)
    ultimately show ?thesis by simp
  qed
  ultimately show ?thesis
    using b(1) by (simp add: VectorPointTable_iterate_def end_position)
qed

text \<open>
  C6. Take a table whose logical size is at most the length of its skip mask (and, as a
  \<open>std::size_t\<close>, below \<open>2 ^ 64\<close>). For every \<open>i\<close> below the logical size, \<open>setSkip(i)\<close>
  succeeds and iterating the table afterwards from \<open>begin()\<close> to \<open>end()\<close> terminates and
  never yields \<open>i\<close>. Iterating yields exactly the unskipped indices below the logical
  size, in increasing order. \<open>begin()\<close> stands at the first unskipped index, or at the
  logical size when there is none. When every index is skipped, the iteration yields
  nothing and \<open>begin()\<close> does not differ from \<open>end()\<close>.
\<close>

theorem iteration_omits_skipped:
  assumes "m_size t \<le> length (m_skips t)" and "m_size t < 2 ^ 64"
  shows "(i < m_size t \<longrightarrow>
            (\<exists>t' xs. VectorPointTable_setSkip t i = Inr t'
               \<and> VectorPointTable_iterate t' = Some (Inr xs) \<and> i \<notin> set xs))
       \<and> VectorPointTable_iterate t = Some (Inr (filter (\<lambda>k. \<not> m_skips t ! k) [0..<m_size t]))
       \<and> (\<exists>b. VectorPointTable_begin t = Inr b \<and> Iterator.m_index b \<le> m_size t
             \<and> (\<forall>k<Iterator.m_index b. m_skips t ! k)
             \<and> (Iterator.m_index b < m_size t \<longrightarrow> \<not> m_skips t ! Iterator.m_index b))
       \<and> ((\<forall>k<m_size t. m_skips t ! k) \<longrightarrow>
             VectorPointTable_iterate t = Some (Inr [])
             \<and> (\<exists>b e. VectorPointTable_begin t = Inr b \<and> VectorPointTable_end t = Inr e
                   \<and> \<not> Iterator_neq b e))"
proof -
  have skipped: "\<exists>t' xs. VectorPointTable_setSkip t i = Inr t'
      \<and> VectorPointTable_iterate t' = Some (Inr xs) \<and> i \<notin> set xs" if "i < m_size t"
  proof -
    let ?t' = "t\<lparr> m_skips := (m_skips t)[i := True] \<rparr>"
    have set: "VectorPointTable_setSkip t i = Inr ?t'"
      using that assms(1) by (simp add: VectorPointTable_setSkip_def)
    have "VectorPointTable_iterate ?t' =
        Some (Inr (filter (\<lambda>k. \<not> m_skips ?t' ! k) [0..<m_size ?t']))"
      by (rule iterate_unskipped) (use assms in simp_all)
    moreover have "i \<notin> set (filter (\<lambda>k. \<not> m_skips ?t' ! k) [0..<m_size ?t'])"
      using that assms(1) by simp
    ultimately show ?thesis using set by blast
  qed
  from begin_position [OF assms(1)]
  obtain b where b: "VectorPointTable_begin t = Inr b" "Iterator.m_index b \<le> m_size t"
      "\<forall>k<Iterator.m_index b. m_skips t ! k"
      "Iterator.m_index b < m_size t \<longrightarrow> \<not> m_skips t ! Iterator.m_index b"
    by blast
  have none: "VectorPointTable_iterate t = Some (Inr [])
      \<and> (\<exists>b e. VectorPointTable_begin t = Inr b \<and> VectorPointTable_end t = Inr e
            \<and> \<not> Iterator_neq b e)" if all: "\<forall>k<m_size t. m_skips t ! k"
  proof -
    have "filter (\<lambda>k. \<not> m_skips t ! k) [0..<m_size t] = []"
      using all by (auto simp: filter_empty_conv)
    then have "VectorPointTable_iterate t = Some (Inr [])"
      using iterate_unskipped [OF assms] by simp
    moreover have "Iterator.m_index b = m_size t"
      using b(2,4) all by (cases "Iterator.m_index b < m_size t") auto
    then have "\<not> Iterator_neq b \<lparr> Iterator.m_index = m_size t, m_pointRef = PointRef (m_size t) \<rparr>"
      by (simp add: Iterator_neq_def)
    ultimately show ?thesis using b(1) end_position [of t] by blast
  qed
  show ?thesis
    using skipped none iterate_unskipped [OF assms] b by blast
qed

text \<open>
  A table of four points with point 1 skipped yields 0, 2, 3; a table with both of its
  points skipped yields nothing.
\<close>

theorem iteration_omits_skipped_witness:
  "m_size (VectorPointTable_sized 8 4) \<le> length (m_skips (VectorPointTable_sized 8 4))
   \<and> m_size (VectorPointTable_sized 8 4) < 2 ^ 64
   \<and> 1 < m_size (VectorPointTable_sized 8 4)
   \<and> (\<exists>t' xs. VectorPointTable_setSkip (VectorPointTable_sized 8 4) 1 = Inr t'
         \<and> VectorPointTable_iterate t' = Some (Inr xs) \<and> 1 \<notin> set xs)
   \<and> VectorPointTable_iterate example_table = Some (Inr [0, 2, 3])
   \<and> m_size all_skipped_table \<le> length (m_skips all_skipped_table)
   \<and> m_skips all_skipped_table ! 0 \<and> m_skips all_skipped_table ! 1
   \<and> VectorPointTable_iterate all_skipped_table = Some (Inr [])"
  using iteration_omits_skipped [of "VectorPointTable_sized 8 4" 1]
    iteration_omits_skipped [of example_table 0]
    iteration_omits_skipped [of all_skipped_table 0]
  by (simp add: sized_8_4 example_table_def all_skipped_table_def upt4 upt_rec [of 0 2] upt_rec [of 1 2])

text \<open>
  Where the logical size exceeds the skip mask, the iterator runs off the mask. Take a
  table of two 8-byte points, raise its logical size to 4 with \<open>setNumPoints(4)\<close>, and
  skip the points 0 and 1. The mask still has two entries, so \<open>begin()\<close> passes the two
  skipped points and then asks \<open>skip(2)\<close>, which throws \<open>out_of_range\<close>: there is no
  initial iterator, and iterating ends in the exception.
\<close>

theorem iteration_throws_past_mask:
  "VectorPointTable_size (VectorPointTable_setNumPoints (VectorPointTable_sized 8 2) 4) = 4
   \<and> VectorPointTable_setSkip (VectorPointTable_setNumPoints (VectorPointTable_sized 8 2) 4) 0
       = Inr (all_skipped_table\<lparr> m_size := 4, m_skips := [True, False] \<rparr>)
   \<and> VectorPointTable_setSkip (all_skipped_table\<lparr> m_size := 4, m_skips := [True, False] \<rparr>) 1
       = Inr (all_skipped_table\<lparr> m_size := 4 \<rparr>)
   \<and> VectorPointTable_size (all_skipped_table\<lparr> m_size := 4 \<rparr>) = 4
   \<and> VectorPointTable_begin (all_skipped_table\<lparr> m_size := 4 \<rparr>) = Inl out_of_range
   \<and> VectorPointTable_iterate (all_skipped_table\<lparr> m_size := 4 \<rparr>) = Some (Inl out_of_range)"
  by (simp add: VectorPointTable_size_def VectorPointTable_setNumPoints_def
      VectorPointTable_sized_def VectorPointTable_setSkip_def all_skipped_table_def u64_def
      replicate2 VectorPointTable_begin_def VectorPointTable_iterate_def Iterator_new_def
      VectorPointTable_skip_def
      Iterator_skip_forward.simps [of _ 0] Iterator_skip_forward.simps [of _ "Suc 0"]
      Iterator_skip_forward.simps [of _ "Suc (Suc 0)"])

text \<open>
  C10. For every iterator, \<open>it++\<close> leaves \<open>it\<close> where it stands and returns what
  \<open>++\<close> makes of a copy of \<open>it\<close>: when that succeeds (and the index does not wrap),
  the iterator returned stands past the position of \<open>it\<close>.
\<close>

theorem post_increment_returns_advanced_copy:
  "snd (Iterator_post_increment t it) = it
   \<and> fst (Iterator_post_increment t it) = Iterator_increment t it
   \<and> (\<forall>it'. fst (Iterator_post_increment t it) = Inr it' \<and> Iterator.m_index it + 1 < 2 ^ 64
          \<longrightarrow> Iterator.m_index it < Iterator.m_index it')"
proof -
  have "Iterator.m_index it < Iterator.m_index it'"
    if "Iterator_increment t it = Inr it'" "Iterator.m_index it + 1 < 2 ^ 64" for it'
  proof -
    from that(1) obtain j where j: "Iterator_skip_forward t (u64 (Iterator.m_index it + 1)) = Inr j"
      and it': "Iterator.m_index it' = j"
      by (auto simp: Iterator_increment_def split: sum.splits)
    from skip_forward_ge [OF j] that(2) it' show ?thesis
      by (simp add: u64_id)
  qed
  then show ?thesis
    by (simp add: Iterator_post_increment_def)
qed

text \<open>
  On the example table, \<open>it++\<close> at index 0 returns an iterator at index 2 (index 1 is
  skipped) and leaves \<open>it\<close> at index 0.
\<close>

theorem post_increment_returns_advanced_copy_witness:
  "fst (Iterator_post_increment example_table \<lparr> Iterator.m_index = 0, m_pointRef = PointRef 0 \<rparr>)
     = Inr \<lparr> Iterator.m_index = 2, m_pointRef = PointRef 2 \<rparr>
   \<and> (0::nat) + 1 < 2 ^ 64
   \<and> snd (Iterator_post_increment example_table \<lparr> Iterator.m_index = 0, m_pointRef = PointRef 0 \<rparr>)
     = \<lparr> Iterator.m_index = 0, m_pointRef = PointRef 0 \<rparr>"
  using post_increment_returns_advanced_copy
    [of example_table "\<lparr> Iterator.m_index = 0, m_pointRef = PointRef 0 \<rparr>"]
  by (simp add: Iterator_post_increment_def Iterator_increment_def u64_def example_table_def
      Iterator_skip_forward.simps [of _ 1] Iterator_skip_forward.simps [of _ 2]
      Iterator_skip_forward.simps [of _ "Suc 0"] Iterator_skip_forward.simps [of _ "Suc (Suc 0)"]
      VectorPointTable_size_def VectorPointTable_skip_def)

section \<open>The example scenario\<close>

text \<open>
  C3. With \<open>pointSize = 8\<close>, a table constructed with 4 points has \<open>capacity() = 4\<close>;
  after \<open>setSkip(1)\<close>, iterating yields the indices 0, 2, 3 in order; after \<open>resize(2)\<close>,
  \<open>capacity() = 2\<close>, \<open>at(1)\<close> succeeds with a handle bound to index 1, whose skip flag
  is still set, and \<open>at(2)\<close> fails with \<open>out_of_range\<close>.
\<close>

theorem scenario:
  "VectorPointTable_capacity (VectorPointTable_sized 8 4) = Inr 4
   \<and> VectorPointTable_setSkip (VectorPointTable_sized 8 4) 1 = Inr example_table
   \<and> VectorPointTable_iterate example_table = Some (Inr [0, 2, 3])
   \<and> VectorPointTable_capacity (VectorPointTable_resize example_table 2) = Inr 2
   \<and> fst (VectorPointTable_at (VectorPointTable_resize example_table 2) 1) = Inr (PointRef 1)
   \<and> VectorPointTable_skip (VectorPointTable_resize example_table 2) 1 = Inr True
   \<and> fst (VectorPointTable_at (VectorPointTable_resize example_table 2) 2) = Inl out_of_range"
proof -
  have "VectorPointTable_iterate example_table = Some (Inr [0, 2, 3])"
    by (subst iterate_unskipped) (simp_all add: example_table_def upt4)
  moreover have "VectorPointTable_setSkip (VectorPointTable_sized 8 4) 1 = Inr example_table"
    by (simp add: VectorPointTable_setSkip_def sized_8_4 example_table_def)
  moreover have "VectorPointTable_capacity (VectorPointTable_sized 8 4) = Inr 4"
    by (simp add: VectorPointTable_capacity_def sized_8_4)
  moreover have "VectorPointTable_capacity (VectorPointTable_resize example_table 2) = Inr 2"
    by (simp add: VectorPointTable_capacity_def VectorPointTable_resize_def example_table_def u64_def)
  moreover have "fst (VectorPointTable_at (VectorPointTable_resize example_table 2) 1) = Inr (PointRef 1)"
    by (simp add: VectorPointTable_at_def VectorPointTable_resize_def VectorPointTable_size_def)
  moreover have "VectorPointTable_skip (VectorPointTable_resize example_table 2) 1 = Inr True"
    by (simp add: VectorPointTable_skip_def VectorPointTable_resize_def example_table_def
        vector_resize_def)
  moreover have "fst (VectorPointTable_at (VectorPointTable_resize example_table 2) 2) = Inl out_of_range"
    by (simp add: VectorPointTable_at_def VectorPointTable_resize_def VectorPointTable_size_def)
  ultimately show ?thesis by simp
qed

text \<open>
  In the scenario, \<open>at(1)\<close> after \<open>resize(2)\<close> does not fail: index 1 is below the
  logical size 2.
\<close>

theorem scenario_at_1_succeeds:
  "VectorPointTable_setSkip (VectorPointTable_sized 8 4) 1 = Inr example_table
   \<and> fst (VectorPointTable_at (VectorPointTable_resize example_table 2) 1) = Inr (PointRef 1)"
  by (simp add: VectorPointTable_setSkip_def sized_8_4 example_table_def
      VectorPointTable_at_def VectorPointTable_resize_def VectorPointTable_size_def)

end
